theory Spec2Isabelle
  imports Main
begin

section \<open>Values of the runtime\<close>

text \<open>
  The request body and every server configuration reach the code as parsed JSON
  (\<^verbatim>\<open>Record<string, any>\<close>), so the checks of the source are checks on
  dynamically typed values. An object is its list of entries in the order
  \<^verbatim>\<open>Object.entries\<close> yields them. A number is observed by the code only through
  its truthiness (zero or not).
\<close>

datatype json =
    JNull
  | JBool bool
  | JNum int
  | JStr string
  | JArr "json list"
  | JObj "(string \<times> json) list"

text \<open>A thrown value is an \<^verbatim>\<open>Error\<close> with its message, or any other value, kept as
  what \<^verbatim>\<open>String(e)\<close> makes of it.\<close>

datatype thrown = ErrorObj string | NonError string

text \<open>\<^verbatim>\<open>e instanceof Error ? e.message : String(e)\<close>\<close>

fun errorToString :: "thrown \<Rightarrow> string" where
  "errorToString (ErrorObj m) = m"
| "errorToString (NonError s) = s"

text \<open>Truthiness of a value; \<open>None\<close> is \<^verbatim>\<open>undefined\<close>.\<close>

fun truthy :: "json \<Rightarrow> bool" where
  "truthy JNull = False"
| "truthy (JBool b) = b"
| "truthy (JNum n) = (n \<noteq> 0)"
| "truthy (JStr s) = (s \<noteq> [])"
| "truthy (JArr xs) = True"
| "truthy (JObj es) = True"

fun truthy_opt :: "json option \<Rightarrow> bool" where
  "truthy_opt None = False"
| "truthy_opt (Some v) = truthy v"

text \<open>\<^verbatim>\<open>typeof v\<close>\<close>

fun js_typeof :: "json \<Rightarrow> string" where
  "js_typeof JNull = ''object''"
| "js_typeof (JBool b) = ''boolean''"
| "js_typeof (JNum n) = ''number''"
| "js_typeof (JStr s) = ''string''"
| "js_typeof (JArr xs) = ''object''"
| "js_typeof (JObj es) = ''object''"

text \<open>
  Reading one of the properties \<^verbatim>\<open>mcpServers\<close>, \<^verbatim>\<open>type\<close>, \<^verbatim>\<open>command\<close>,
  \<^verbatim>\<open>url\<close>, \<^verbatim>\<open>args\<close>, \<^verbatim>\<open>env\<close>, \<^verbatim>\<open>cwd\<close> of a value that is not
  \<^verbatim>\<open>null\<close>: only an object can have them.
\<close>

fun get_prop :: "json \<Rightarrow> string \<Rightarrow> json option" where
  "get_prop (JObj es) k = map_of es k"
| "get_prop v k = None"

text \<open>Decimal rendering of an array index, the key \<^verbatim>\<open>Object.entries\<close> gives it.\<close>

fun index_string :: "nat \<Rightarrow> string" where
  "index_string n =
     (if n < 10 then [''0123456789'' ! n]
      else index_string (n div 10) @ [''0123456789'' ! (n mod 10)])"

declare index_string.simps [simp del]

text \<open>\<^verbatim>\<open>Object.entries(v)\<close> for a value that is not \<^verbatim>\<open>null\<close>.\<close>

fun object_entries :: "json \<Rightarrow> (string \<times> json) list" where
  "object_entries (JObj es) = es"
| "object_entries (JArr xs) = zip (map index_string [0..<length xs]) xs"
| "object_entries (JStr s) = zip (map index_string [0..<length s]) (map (\<lambda>c. JStr [c]) s)"
| "object_entries v = []"

text \<open>
  A record the code builds (\<^verbatim>\<open>serverStatus\<close>, \<^verbatim>\<open>serverErrors\<close>, \<^verbatim>\<open>serverTools\<close>,
  \<^verbatim>\<open>tools\<close>) is a plain object, read here as the map of its own properties, which is
  what the JSON response carries. The assignment \<^verbatim>\<open>record[name] = value\<close> creates or
  replaces the own property \<open>name\<close>, with one exception: \<open>__proto__\<close> is an accessor
  inherited from \<^verbatim>\<open>Object.prototype\<close>, so assigning under that name calls its setter
  and creates no own property. \<^verbatim>\<open>Object.assign\<close> copies the own properties of its
  source by the same assignment, later values replacing earlier ones.
\<close>

definition js_set :: "(string \<rightharpoonup> 'a) \<Rightarrow> string \<Rightarrow> 'a \<Rightarrow> (string \<rightharpoonup> 'a)" where
  "js_set m k v = (if k = ''__proto__'' then m else m(k \<mapsto> v))"

definition object_assign :: "(string \<rightharpoonup> 'a) \<Rightarrow> (string \<rightharpoonup> 'a) \<Rightarrow> (string \<rightharpoonup> 'a)" where
  "object_assign target source = (\<lambda>k. if k = ''__proto__'' then target k else (target ++ source) k)"

section \<open>The MCP library and the trace of a run\<close>

text \<open>
  The library (\<^verbatim>\<open>experimental_createMCPClient\<close>, the stdio transport, and the
  \<^verbatim>\<open>tools\<close> and \<^verbatim>\<open>close\<close> methods of a client) is outside the repository.
  It is a parameter: an arbitrary state machine over a world \<open>'w\<close> with client handles
  \<open>'c\<close> and opaque tool descriptors \<open>'d\<close>. Each call may throw. \<open>js_String\<close> is
  \<^verbatim>\<open>String(v)\<close> on values that are not strings, used by the template literals.
\<close>

datatype transport =
    SSETransport "json option"
  | StdioTransport "json option" "json option" "json option" "json option"

record ('w, 'c, 'd) runtime =
  create_client :: "transport \<Rightarrow> 'w \<Rightarrow> (thrown + 'c) \<times> 'w"
  client_tools :: "'c \<Rightarrow> 'w \<Rightarrow> (thrown + (string \<rightharpoonup> 'd)) \<times> 'w"
  client_close :: "'c \<Rightarrow> 'w \<Rightarrow> thrown option \<times> 'w"
  js_String :: "json \<Rightarrow> string"

text \<open>
  A run records every call it makes to the library: one event per call. Clients are
  numbered in the order of their creation, so that two clients are never confused.
\<close>

datatype event = ConnectFailed | Connected nat | ToolsCalled nat | CloseCalled nat

record 'w state =
  world :: 'w
  created :: nat
  events :: "event list"

type_synonym 'c client = "nat \<times> 'c"

definition connect ::
  "('w, 'c, 'd) runtime \<Rightarrow> transport \<Rightarrow> 'w state \<Rightarrow> (thrown + 'c client) \<times> 'w state" where
  "connect rt t st =
     (case create_client rt t (world st) of
        (Inl e, w) \<Rightarrow> (Inl e, st\<lparr>world := w, events := events st @ [ConnectFailed]\<rparr>)
      | (Inr h, w) \<Rightarrow>
          (Inr (created st, h),
           st\<lparr>world := w, created := Suc (created st),
              events := events st @ [Connected (created st)]\<rparr>))"

definition call_tools ::
  "('w, 'c, 'd) runtime \<Rightarrow> 'c client \<Rightarrow> 'w state \<Rightarrow> (thrown + (string \<rightharpoonup> 'd)) \<times> 'w state" where
  "call_tools rt c st =
     (case client_tools rt (snd c) (world st) of
        (r, w) \<Rightarrow> (r, st\<lparr>world := w, events := events st @ [ToolsCalled (fst c)]\<rparr>))"

definition call_close ::
  "('w, 'c, 'd) runtime \<Rightarrow> 'c client \<Rightarrow> 'w state \<Rightarrow> thrown option \<times> 'w state" where
  "call_close rt c st =
     (case client_close rt (snd c) (world st) of
        (r, w) \<Rightarrow> (r, st\<lparr>world := w, events := events st @ [CloseCalled (fst c)]\<rparr>))"

text \<open>A value inside a template literal; \<open>None\<close> is \<^verbatim>\<open>undefined\<close>.\<close>

fun template :: "('w, 'c, 'd) runtime \<Rightarrow> json option \<Rightarrow> string" where
  "template rt None = ''undefined''"
| "template rt (Some (JStr s)) = s"
| "template rt (Some v) = js_String rt v"

section \<open>The service: \<^verbatim>\<open>app/lib/services/mcp.ts\<close>\<close>

definition createSSEClient ::
  "('w, 'c, 'd) runtime \<Rightarrow> string \<Rightarrow> json option \<Rightarrow> 'w state \<Rightarrow> (thrown + 'c client) \<times> 'w state" where
  \<open>createSSEClient rt serverName url st =
     (case connect rt (SSETransport url) st of
        (Inl e, st') \<Rightarrow>
          (Inl (ErrorObj (''Failed to connect to SSE endpoint "'' @ template rt url @ ''": ''
                          @ errorToString e)), st')
      | (Inr client, st') \<Rightarrow> (Inr client, st'))\<close>

text \<open>
  The debug line of \<^verbatim>\<open>createStdioClient\<close> evaluates \<^verbatim>\<open>args?.join(' ')\<close> before the
  \<^verbatim>\<open>try\<close>: with \<^verbatim>\<open>args\<close> present, not \<^verbatim>\<open>null\<close> and not an array, the call of the
  missing method throws a \<^verbatim>\<open>TypeError\<close>.
\<close>

fun join_throws :: "json option \<Rightarrow> bool" where
  "join_throws None = False"
| "join_throws (Some JNull) = False"
| "join_throws (Some (JArr xs)) = False"
| "join_throws (Some v) = True"

definition createStdioClient ::
  "('w, 'c, 'd) runtime \<Rightarrow> string \<Rightarrow> json \<Rightarrow> 'w state \<Rightarrow> (thrown + 'c client) \<times> 'w state" where
  \<open>createStdioClient rt serverName config st =
     (let command = get_prop config ''command'';
          args = get_prop config ''args'';
          env = get_prop config ''env'';
          cwd = get_prop config ''cwd''
      in if join_throws args then (Inl (ErrorObj ''args?.join is not a function''), st)
         else (case connect rt (StdioTransport command args env cwd) st of
                 (Inl e, st') \<Rightarrow>
                   (Inl (ErrorObj (''Failed to start command "'' @ template rt command @ ''": ''
                                   @ errorToString e)), st')
               | (Inr client, st') \<Rightarrow> (Inr client, st')))\<close>

text \<open>\<^verbatim>\<open>serverConfig.type === 'sse' || (!serverConfig.command && serverConfig.url)\<close>,
  read as a condition.\<close>

definition isSSE :: "json \<Rightarrow> bool" where
  "isSSE serverConfig \<longleftrightarrow>
     get_prop serverConfig ''type'' = Some (JStr ''sse'')
     \<or> (\<not> truthy_opt (get_prop serverConfig ''command'') \<and> truthy_opt (get_prop serverConfig ''url''))"

text \<open>The result type follows the declared \<^verbatim>\<open>Promise<MCPClient | null>\<close>: \<open>Inl\<close> is a
  rejection, \<open>Inr None\<close> would be \<^verbatim>\<open>null\<close>.\<close>

definition createMCPClient ::
  "('w, 'c, 'd) runtime \<Rightarrow> string \<Rightarrow> json \<Rightarrow> 'w state
     \<Rightarrow> (thrown + 'c client option) \<times> 'w state" where
  \<open>createMCPClient rt serverName serverConfig st =
     (if \<not> truthy serverConfig then
        (Inl (ErrorObj (''Invalid configuration for server "'' @ serverName @ ''"'')), st)
      else if isSSE serverConfig \<and> \<not> truthy_opt (get_prop serverConfig ''url'') then
        (Inl (ErrorObj (''Missing URL for SSE server "'' @ serverName @ ''"'')), st)
      else if \<not> isSSE serverConfig \<and> \<not> truthy_opt (get_prop serverConfig ''command'') then
        (Inl (ErrorObj (''Missing command for stdio server "'' @ serverName @ ''"'')), st)
      else
        (case (if isSSE serverConfig
               then createSSEClient rt serverName (get_prop serverConfig ''url'') st
               else createStdioClient rt serverName serverConfig st) of
           (Inl e, st') \<Rightarrow> (Inl e, st')
         | (Inr client, st') \<Rightarrow>
             (case call_tools rt client st' of
                (Inl e, st'') \<Rightarrow>
                  (Inl (ErrorObj (''Server connection established but failed to get available tools: ''
                                  @ errorToString e)), st'')
              | (Inr toolSet, st'') \<Rightarrow> (Inr (Some client), st''))))\<close>




text \<open>
  \<^verbatim>\<open>closeMCPClients\<close>: every \<^verbatim>\<open>close\<close> is started, in list order, and each rejection
  is caught and logged, so nothing is left to reject the call.
\<close>

fun closeMCPClients :: "('w, 'c, 'd) runtime \<Rightarrow> 'c client list \<Rightarrow> 'w state \<Rightarrow> 'w state" where
  "closeMCPClients rt [] st = st"
| "closeMCPClients rt (client # clients) st =
     closeMCPClients rt clients (snd (call_close rt client st))"

section \<open>The check endpoint: \<^verbatim>\<open>app/routes/api.mcp-check.ts\<close>\<close>

record 'd check_result =
  serverStatus :: "string \<rightharpoonup> bool"
  serverErrors :: "string \<rightharpoonup> string"
  serverTools :: "string \<rightharpoonup> (string \<rightharpoonup> 'd)"

datatype 'd response = Json200 "'d check_result" | JsonError nat string

definition empty_result :: "'d check_result" where
  "empty_result = \<lparr>serverStatus = Map.empty, serverErrors = Map.empty, serverTools = Map.empty\<rparr>"

text \<open>
  The callback mapped over the entries. Its whole body is one \<^verbatim>\<open>try\<close>, whose
  \<^verbatim>\<open>catch\<close> also receives a rejection of \<^verbatim>\<open>client.close()\<close>. Each callback
  assigns to the three records under its own server name only; the callbacks are run
  here one after the other in the order of the entries, against a library that may
  answer any way it likes.
\<close>

definition checkServer ::
  "('w, 'c, 'd) runtime \<Rightarrow> string \<times> json \<Rightarrow> 'd check_result \<times> 'w state
     \<Rightarrow> 'd check_result \<times> 'w state" where
  "checkServer rt entry acc =
     (case entry of (serverName, serverConfig) \<Rightarrow>
      case acc of (res, st) \<Rightarrow>
        (case createMCPClient rt serverName serverConfig st of
           (Inl error, st1) \<Rightarrow>
             (res\<lparr>serverStatus := js_set (serverStatus res) serverName False,
                  serverErrors := js_set (serverErrors res) serverName (errorToString error)\<rparr>, st1)
         | (Inr None, st1) \<Rightarrow>
             (res\<lparr>serverStatus := js_set (serverStatus res) serverName False,
                  serverErrors := js_set (serverErrors res) serverName ''Failed to create client''\<rparr>,
              st1)
         | (Inr (Some client), st1) \<Rightarrow>
             (let res1 = res\<lparr>serverStatus := js_set (serverStatus res) serverName True\<rparr>
              in case call_tools rt client st1 of
                (r, st2) \<Rightarrow>
                  (let res2 =
                     (case r of
                        Inr tools \<Rightarrow>
                          res1\<lparr>serverTools := js_set (serverTools res1) serverName tools\<rparr>
                      | Inl toolError \<Rightarrow>
                          res1\<lparr>serverErrors := js_set (serverErrors res1) serverName
                                 (''Connected but failed to get tools: '' @ errorToString toolError)\<rparr>)
                   in case call_close rt client st2 of
                     (None, st3) \<Rightarrow> (res2, st3)
                   | (Some error, st3) \<Rightarrow>
                       (res2\<lparr>serverStatus := js_set (serverStatus res2) serverName False,
                             serverErrors := js_set (serverErrors res2) serverName (errorToString error)\<rparr>, st3)))))"

fun checkServers ::
  "('w, 'c, 'd) runtime \<Rightarrow> (string \<times> json) list \<Rightarrow> 'd check_result \<times> 'w state
     \<Rightarrow> 'd check_result \<times> 'w state" where
  "checkServers rt [] acc = acc"
| "checkServers rt (entry # entries) acc = checkServers rt entries (checkServer rt entry acc)"

text \<open>
  \<open>body = None\<close> is a request whose \<^verbatim>\<open>json()\<close> rejects. Destructuring
  \<^verbatim>\<open>null\<close> throws; both end in the outer \<^verbatim>\<open>catch\<close>.
\<close>

definition action ::
  "('w, 'c, 'd) runtime \<Rightarrow> json option \<Rightarrow> 'w state \<Rightarrow> 'd response \<times> 'w state" where
  "action rt body st =
     (case body of
        None \<Rightarrow> (JsonError 500 ''Failed to check MCP servers'', st)
      | Some JNull \<Rightarrow> (JsonError 500 ''Failed to check MCP servers'', st)
      | Some b \<Rightarrow>
          (case get_prop b ''mcpServers'' of
             None \<Rightarrow> (JsonError 400 ''Invalid MCP servers configuration'', st)
           | Some mcpServers \<Rightarrow>
               if \<not> truthy mcpServers \<or> js_typeof mcpServers \<noteq> ''object'' then
                 (JsonError 400 ''Invalid MCP servers configuration'', st)
               else
                 (case checkServers rt (object_entries mcpServers) (empty_result, st) of
                    (res, st') \<Rightarrow> (Json200 res, st'))))"

definition init_state :: "'w \<Rightarrow> 'w state" where
  "init_state w = \<lparr>world = w, created = 0, events = []\<rparr>"

section \<open>A library to run the model against\<close>

text \<open>
  A small scripted library for evaluating the model. The handle of a client is the
  command or the URL it was created from. The command \<open>down\<close> cannot be started; the
  client \<open>mute\<close> never answers \<^verbatim>\<open>tools()\<close>; \<open>flaky\<close> answers the first
  \<^verbatim>\<open>tools()\<close> of the run only; \<open>stuck\<close> and \<open>silent\<close> reject
  \<^verbatim>\<open>close()\<close>, the second with an empty message. The world counts the calls of
  \<^verbatim>\<open>tools()\<close>.
\<close>

definition demo_tools :: "string \<Rightarrow> (string \<rightharpoonup> nat)" where
  "demo_tools h =
     (if h = ''A'' then [''x'' \<mapsto> 1]
      else if h = ''B'' then [''x'' \<mapsto> 2]
      else [''log'' \<mapsto> 0])"

definition demo_rt :: "(nat, string, nat) runtime" where
  "demo_rt =
     \<lparr>create_client = (\<lambda>t w. case t of
          StdioTransport (Some (JStr c)) args env cwd \<Rightarrow>
            if c = ''down'' then (Inl (ErrorObj ''spawn failed''), w) else (Inr c, w)
        | SSETransport (Some (JStr u)) \<Rightarrow> (Inr u, w)
        | _ \<Rightarrow> (Inl (NonError ''bad transport''), w)),
      client_tools = (\<lambda>h w.
          if h = ''mute'' \<or> (h = ''flaky'' \<and> 0 < w) then (Inl (ErrorObj ''no answer''), Suc w)
          else (Inr (demo_tools h), Suc w)),
      client_close = (\<lambda>h w.
          if h = ''stuck'' then (Some (ErrorObj ''close failed''), w)
          else if h = ''silent'' then (Some (ErrorObj []), w)
          else (None, w)),
      js_String = (\<lambda>v. ''[object Object]'')\<rparr>"

section \<open>Vocabulary of the specification\<close>

text \<open>
  The \<^verbatim>\<open>mcpServers\<close> field of a request: present when the body parses to an object
  that has the field.
\<close>

definition mcpServers_field :: "json option \<Rightarrow> json option" where
  "mcpServers_field body =
     (case body of Some (JObj es) \<Rightarrow> map_of es ''mcpServers'' | _ \<Rightarrow> None)"

text \<open>
  An object of the runtime is a plain object or an array (\<^verbatim>\<open>null\<close> is not one);
  the entries of an array are its elements under their indices.
\<close>

fun is_object :: "json \<Rightarrow> bool" where
  "is_object (JObj es) = True"
| "is_object (JArr xs) = True"
| "is_object v = False"



text \<open>
  The parts of \<^verbatim>\<open>createMCPClient\<close> by name. A specification is valid when it passes
  the three guards; \<open>establish\<close> is the transport factory the selection chooses;
  \<open>verify_tools\<close> is the \<^verbatim>\<open>tools()\<close> call made on the fresh client before it is
  returned.
\<close>

definition valid_spec :: "json \<Rightarrow> bool" where
  "valid_spec cfg \<longleftrightarrow>
     truthy cfg \<and> (if isSSE cfg then truthy_opt (get_prop cfg ''url'')
                   else truthy_opt (get_prop cfg ''command''))"

definition establish ::
  "('w, 'c, 'd) runtime \<Rightarrow> string \<Rightarrow> json \<Rightarrow> 'w state \<Rightarrow> (thrown + 'c client) \<times> 'w state" where
  "establish rt n cfg st =
     (if isSSE cfg then createSSEClient rt n (get_prop cfg ''url'') st
      else createStdioClient rt n cfg st)"

definition verify_tools ::
  "('w, 'c, 'd) runtime \<Rightarrow> (thrown + 'c client) \<times> 'w state
     \<Rightarrow> (thrown + 'c client option) \<times> 'w state" where
  "verify_tools rt r =
     (case r of
        (Inl e, st') \<Rightarrow> (Inl e, st')
      | (Inr client, st') \<Rightarrow>
          (case call_tools rt client st' of
             (Inl e, st'') \<Rightarrow>
               (Inl (ErrorObj (''Server connection established but failed to get available tools: ''
                               @ errorToString e)), st'')
           | (Inr toolSet, st'') \<Rightarrow> (Inr (Some client), st'')))"

text \<open>
  Properties of the trace. In a well-formed state only clients that exist have been
  closed. A step that closes nothing only adds events, none of them a close; a callback
  adds events and closes no client but one it created itself.
\<close>

definition closes_known :: "'w state \<Rightarrow> bool" where
  "closes_known st \<longleftrightarrow> (\<forall>k. CloseCalled k \<in> set (events st) \<longrightarrow> k < created st)"

definition no_close_step :: "'w state \<Rightarrow> 'w state \<Rightarrow> bool" where
  "no_close_step st st' \<longleftrightarrow>
     created st \<le> created st'
     \<and> (\<exists>evs. events st' = events st @ evs \<and> (\<forall>k. CloseCalled k \<notin> set evs))"

definition callback_step :: "'w state \<Rightarrow> 'w state \<Rightarrow> bool" where
  "callback_step st st' \<longleftrightarrow>
     created st \<le> created st'
     \<and> (\<exists>evs. events st' = events st @ evs
           \<and> (\<forall>k. CloseCalled k \<in> set evs \<longrightarrow> created st \<le> k \<and> k < created st'))"


text \<open>
  The two branches a callback can end in: its \<^verbatim>\<open>catch\<close>, with the thrown value, and
  the branch that holds a client.
\<close>

definition catch_branch :: "'d check_result \<Rightarrow> string \<Rightarrow> thrown \<Rightarrow> 'd check_result" where
  "catch_branch res n e =
     res\<lparr>serverStatus := js_set (serverStatus res) n False,
         serverErrors := js_set (serverErrors res) n (errorToString e)\<rparr>"

definition client_branch ::
  "('w, 'c, 'd) runtime \<Rightarrow> 'd check_result \<Rightarrow> string \<Rightarrow> 'c client \<Rightarrow> 'w state
     \<Rightarrow> 'd check_result \<times> 'w state" where
  "client_branch rt res n client st1 =
     (case call_tools rt client st1 of
        (r, st2) \<Rightarrow>
          (case call_close rt client st2 of
             (closed, st3) \<Rightarrow>
               (let res1 = res\<lparr>serverStatus := js_set (serverStatus res) n True\<rparr>;
                    res2 = (case r of
                              Inr tools \<Rightarrow> res1\<lparr>serverTools := js_set (serverTools res1) n tools\<rparr>
                            | Inl toolError \<Rightarrow>
                                res1\<lparr>serverErrors := js_set (serverErrors res1) n
                                  (''Connected but failed to get tools: '' @ errorToString toolError)\<rparr>)
                in (case closed of
                      None \<Rightarrow> res2
                    | Some e \<Rightarrow> catch_branch res2 n e, st3))))"


text \<open>A request body with one server, and a configuration with the given servers.\<close>

definition one_server :: "string \<Rightarrow> json option" where
  "one_server command =
     Some (JObj [(''mcpServers'', JObj [(''s'', JObj [(''command'', JStr command)])])])"


section \<open>Client creation\<close>

lemmas demo_defs =
  action_def checkServer_def createMCPClient_def createStdioClient_def createSSEClient_def
  connect_def call_tools_def call_close_def isSSE_def demo_rt_def demo_tools_def
  init_state_def empty_result_def js_set_def object_assign_def
  one_server_def

lemma createMCPClient_cases:
  "(\<exists>e st'. createMCPClient rt n cfg st = (Inl e, st')) \<or>
   (\<exists>client st'. createMCPClient rt n cfg st = (Inr (Some client), st'))"
  by (auto simp: createMCPClient_def split: prod.splits sum.splits)

text \<open>
  C10. For every server name and configuration, \<^verbatim>\<open>createMCPClient\<close> either throws or
  returns a client: it never returns \<^verbatim>\<open>null\<close>, although its declared type allows it.
  So every run of the callback of the check operation ends in one of two branches: the
  \<^verbatim>\<open>catch\<close>, with what \<^verbatim>\<open>createMCPClient\<close> threw, or the branch that holds the
  client. The third branch, which records \<open>Failed to create client\<close> for a \<^verbatim>\<open>null\<close>
  client, is never the one taken.
\<close>

theorem createMCPClient_never_null:
  "((\<exists>e st1. createMCPClient rt n cfg st = (Inl e, st1))
      \<or> (\<exists>client st1. createMCPClient rt n cfg st = (Inr (Some client), st1)))
   \<and> ((\<exists>e st1. createMCPClient rt n cfg st = (Inl e, st1)
            \<and> checkServer rt (n, cfg) (res, st) = (catch_branch res n e, st1))
      \<or> (\<exists>client st1. createMCPClient rt n cfg st = (Inr (Some client), st1)
            \<and> checkServer rt (n, cfg) (res, st) = client_branch rt res n client st1))"
proof -
  consider (throws) e st1 where "createMCPClient rt n cfg st = (Inl e, st1)"
    | (client) client st1 where "createMCPClient rt n cfg st = (Inr (Some client), st1)"
    using createMCPClient_cases [of rt n cfg st] by blast
  then show ?thesis
  proof cases
    case throws
    then have "checkServer rt (n, cfg) (res, st) = (catch_branch res n e, st1)"
      by (simp add: checkServer_def catch_branch_def)
    with throws show ?thesis by simp
  next
    case client
    then have "checkServer rt (n, cfg) (res, st) = client_branch rt res n client st1"
      by (simp add: checkServer_def client_branch_def catch_branch_def Let_def
          split: prod.splits option.splits)
    with client show ?thesis by simp
  qed
qed



lemma createMCPClient_valid:
  "valid_spec cfg \<Longrightarrow> createMCPClient rt n cfg st = verify_tools rt (establish rt n cfg st)"
  by (auto simp: valid_spec_def createMCPClient_def verify_tools_def establish_def split: if_splits)

text \<open>Every error \<^verbatim>\<open>createMCPClient\<close> throws has a message.\<close>

lemma createMCPClient_error_nonempty:
  "createMCPClient rt n cfg st = (Inl e, st') \<Longrightarrow> errorToString e \<noteq> []"
  by (auto simp: createMCPClient_def createSSEClient_def createStdioClient_def Let_def
      split: if_splits prod.splits sum.splits)

text \<open>
  C9, as amended. A configuration that is \<^verbatim>\<open>null\<close> or otherwise falsy is rejected as
  an invalid configuration, before any kind is selected. For every other configuration
  the event-stream kind is selected exactly when \<^verbatim>\<open>type\<close> equals \<open>sse\<close>, or when
  \<^verbatim>\<open>command\<close> is absent or falsy (the empty string counts as absent) and
  \<^verbatim>\<open>url\<close> is present and truthy (not the empty string). The selected kind then asks
  for its own field: the event-stream kind connects to the URL or is rejected for a missing
  URL, the subprocess kind starts the command or is rejected for a missing command. So
  such a configuration with a truthy command and a URL and no type \<open>sse\<close> is a
  subprocess, and one with no truthy command, no truthy URL and no type \<open>sse\<close> is
  rejected as a subprocess without its command.
\<close>

theorem transport_kind_selection:
  \<open>createMCPClient rt n cfg st =
     (if \<not> truthy cfg
      then (Inl (ErrorObj (''Invalid configuration for server "'' @ n @ ''"'')), st)
      else if get_prop cfg ''type'' = Some (JStr ''sse'')
         \<or> (\<not> truthy_opt (get_prop cfg ''command'') \<and> truthy_opt (get_prop cfg ''url''))
      then (if truthy_opt (get_prop cfg ''url'')
            then verify_tools rt (createSSEClient rt n (get_prop cfg ''url'') st)
            else (Inl (ErrorObj (''Missing URL for SSE server "'' @ n @ ''"'')), st))
      else (if truthy_opt (get_prop cfg ''command'')
            then verify_tools rt (createStdioClient rt n cfg st)
            else (Inl (ErrorObj (''Missing command for stdio server "'' @ n @ ''"'')), st)))\<close>
  by (auto simp: createMCPClient_def verify_tools_def isSSE_def)

text \<open>
  The claim as first stated reads "absent" and "present" as the property being there or
  not, and speaks of every configuration. A configuration with an empty command and a URL
  has both and no type \<open>sse\<close>, and yet the event-stream kind is selected: its client is
  created from the URL. And the configuration \<^verbatim>\<open>null\<close> has no command, no URL and no
  type \<open>sse\<close>, and yet it is not rejected for a missing command: it is rejected as an
  invalid configuration.
\<close>

theorem transport_kind_selection_counterexample:
  \<open>\<not> (isSSE (JObj [(''command'', JStr []), (''url'', JStr ''http://localhost:8000/sse'')])
       \<longleftrightarrow> get_prop (JObj [(''command'', JStr []), (''url'', JStr ''http://localhost:8000/sse'')]) ''type''
             = Some (JStr ''sse'')
           \<or> (get_prop (JObj [(''command'', JStr []), (''url'', JStr ''http://localhost:8000/sse'')])
                 ''command'' = None
              \<and> get_prop (JObj [(''command'', JStr []), (''url'', JStr ''http://localhost:8000/sse'')])
                 ''url'' \<noteq> None))
   \<and> fst (createMCPClient demo_rt ''remote''
        (JObj [(''command'', JStr []), (''url'', JStr ''http://localhost:8000/sse'')]) (init_state 0))
      = Inr (Some (0, ''http://localhost:8000/sse''))
   \<and> get_prop JNull ''command'' = None \<and> get_prop JNull ''url'' = None
   \<and> get_prop JNull ''type'' \<noteq> Some (JStr ''sse'')
   \<and> createMCPClient demo_rt ''none'' JNull (init_state 0)
      = (Inl (ErrorObj ''Invalid configuration for server "none"''), init_state 0)
   \<and> createMCPClient demo_rt ''none'' JNull (init_state 0)
      \<noteq> (Inl (ErrorObj ''Missing command for stdio server "none"''), init_state 0)\<close>
  by (simp add: demo_defs)

theorem transport_kind_selection_witness:
  \<open>createMCPClient demo_rt ''remote''
        (JObj [(''command'', JStr []), (''url'', JStr ''http://localhost:8000/sse'')]) (init_state 0)
      = (Inr (Some (0, ''http://localhost:8000/sse'')),
         \<lparr>world = 1, created = 1, events = [Connected 0, ToolsCalled 0]\<rparr>)
   \<and> createMCPClient demo_rt ''git''
        (JObj [(''command'', JStr ''mcp-server-git''), (''url'', JStr ''http://localhost:8000/sse'')])
        (init_state 0)
      = (Inr (Some (0, ''mcp-server-git'')),
         \<lparr>world = 1, created = 1, events = [Connected 0, ToolsCalled 0]\<rparr>)
   \<and> createMCPClient demo_rt ''none'' (JObj []) (init_state 0)
      = (Inl (ErrorObj ''Missing command for stdio server "none"''), init_state 0)
   \<and> createMCPClient demo_rt ''none'' JNull (init_state 0)
      = (Inl (ErrorObj ''Invalid configuration for server "none"''), init_state 0)\<close>
  using transport_kind_selection
          [of demo_rt "''remote''"
              "JObj [(''command'', JStr []), (''url'', JStr ''http://localhost:8000/sse'')]"
              "init_state 0"]
        transport_kind_selection
          [of demo_rt "''git''"
              "JObj [(''command'', JStr ''mcp-server-git''), (''url'', JStr ''http://localhost:8000/sse'')]"
              "init_state 0"]
        transport_kind_selection [of demo_rt "''none''" "JObj []" "init_state 0"]
        transport_kind_selection [of demo_rt "''none''" JNull "init_state 0"]
  by (simp add: verify_tools_def demo_defs)

section \<open>The check operation\<close>

lemma checkServers_append:
  "checkServers rt (xs @ ys) acc = checkServers rt ys (checkServers rt xs acc)"
  by (induction xs arbitrary: acc) simp_all

lemma checkServer_status_dom:
  "dom (serverStatus (fst (checkServer rt (n, cfg) (res, st))))
     = dom (serverStatus res) \<union> ({n} - {''__proto__''})"
  by (auto simp: checkServer_def js_set_def Let_def split: prod.splits sum.splits option.splits)

lemma checkServers_status_dom:
  "dom (serverStatus (fst (checkServers rt es acc)))
     = dom (serverStatus (fst acc)) \<union> (fst ` set es - {''__proto__''})"
proof (induction es arbitrary: acc)
  case Nil
  show ?case by simp
next
  case (Cons e es)
  obtain n cfg where e: "e = (n, cfg)" by (cases e)
  obtain res st where acc: "acc = (res, st)" by (cases acc)
  show ?case
    by (auto simp: Cons.IH e acc checkServer_status_dom)
qed



lemma accepted_iff_object: "truthy v \<and> js_typeof v = ''object'' \<longleftrightarrow> is_object v"
  by (cases v) simp_all

lemma action_accepts:
  assumes "mcpServers_field body = Some v" "is_object v"
  shows "action rt body st =
           (Json200 (fst (checkServers rt (object_entries v) (empty_result, st))),
            snd (checkServers rt (object_entries v) (empty_result, st)))"
  using assms accepted_iff_object [of v]
  by (auto simp: action_def mcpServers_field_def split: json.splits option.splits prod.splits)


lemma checkServer_other:
  assumes "m \<noteq> n"
  shows "serverStatus (fst (checkServer rt (n, cfg) (res, st))) m = serverStatus res m"
    and "serverErrors (fst (checkServer rt (n, cfg) (res, st))) m = serverErrors res m"
    and "serverTools (fst (checkServer rt (n, cfg) (res, st))) m = serverTools res m"
  using assms
  by (auto simp: checkServer_def js_set_def Let_def split: prod.splits sum.splits option.splits)

lemma checkServers_other:
  assumes "m \<notin> fst ` set es"
  shows "serverStatus (fst (checkServers rt es acc)) m = serverStatus (fst acc) m
       \<and> serverErrors (fst (checkServers rt es acc)) m = serverErrors (fst acc) m
       \<and> serverTools (fst (checkServers rt es acc)) m = serverTools (fst acc) m"
  using assms
proof (induction es arbitrary: acc)
  case Nil
  show ?case by simp
next
  case (Cons e es)
  obtain n cfg where e: "e = (n, cfg)" by (cases e)
  obtain res st where acc: "acc = (res, st)" by (cases acc)
  from Cons.prems have "m \<noteq> n" and rest: "m \<notin> fst ` set es"
    by (auto simp: e)
  show ?case
    using Cons.IH [OF rest, of "checkServer rt e acc"] checkServer_other [OF \<open>m \<noteq> n\<close>, of rt cfg res st]
    by (simp add: e acc)
qed

text \<open>The outcome of one server in the response is what its own callback wrote.\<close>

lemma action_entry:
  assumes "mcpServers_field body = Some v" and "is_object v"
    and "object_entries v = pre @ (n, cfg) # post"
    and "n \<notin> fst ` set post"
    and "checkServers rt pre (empty_result, st) = (res1, st1)"
  shows "\<exists>res st'. action rt body st = (Json200 res, st')
           \<and> serverStatus res n = serverStatus (fst (checkServer rt (n, cfg) (res1, st1))) n
           \<and> serverErrors res n = serverErrors (fst (checkServer rt (n, cfg) (res1, st1))) n
           \<and> serverTools res n = serverTools (fst (checkServer rt (n, cfg) (res1, st1))) n"
proof -
  let ?r = "checkServers rt (object_entries v) (empty_result, st)"
  have run: "action rt body st = (Json200 (fst ?r), snd ?r)"
    using assms(1,2) by (rule action_accepts)
  have split: "?r = checkServers rt post (checkServer rt (n, cfg) (res1, st1))"
    by (simp add: assms(3,5) checkServers_append)
  show ?thesis
    using run checkServers_other [OF assms(4), of rt "checkServer rt (n, cfg) (res1, st1)"]
    by (simp add: split)
qed

lemma before_untouched:
  assumes "n \<notin> fst ` set pre" and "checkServers rt pre (empty_result, st) = (res1, st1)"
  shows "serverStatus res1 n = None \<and> serverErrors res1 n = None \<and> serverTools res1 n = None"
  using checkServers_other [OF assms(1), of rt "(empty_result, st)"] assms(2)
  by (simp add: empty_result_def)





text \<open>
  C6. For an input mapping with N server specifications the result is to hold exactly N
  statuses, one per server name. The code records the status by assignment into a plain
  object, and falls short for one name: the assignments of a server named
  \<open>__proto__\<close> create no property, so that server has no status (and no error and no
  tools) in the response. The names with a status are the names of the input except
  \<open>__proto__\<close>; with N distinct names there are N statuses if none of them is
  \<open>__proto__\<close>, and N - 1 otherwise.
\<close>

theorem proto_server_has_no_status:
  assumes "mcpServers_field body = Some v" and "is_object v"
    and "distinct (map fst (object_entries v))"
  shows "\<exists>res st'. action rt body st = (Json200 res, st')
           \<and> dom (serverStatus res) = fst ` set (object_entries v) - {''__proto__''}
           \<and> card (dom (serverStatus res))
               = length (object_entries v)
                 - (if ''__proto__'' \<in> fst ` set (object_entries v) then 1 else 0)"
proof -
  let ?r = "checkServers rt (object_entries v) (empty_result, st)"
  let ?names = "set (map fst (object_entries v))"
  have run: "action rt body st = (Json200 (fst ?r), snd ?r)"
    using assms(1,2) by (rule action_accepts)
  have names: "dom (serverStatus (fst ?r)) = ?names - {''__proto__''}"
    by (simp add: checkServers_status_dom empty_result_def)
  have "card ?names = length (object_entries v)"
    using distinct_card [OF assms(3)] by simp
  then have "card (?names - {''__proto__''})
      = length (object_entries v) - (if ''__proto__'' \<in> ?names then 1 else 0)"
    by (simp add: card_Diff_singleton_if)
  with run names show ?thesis by simp
qed

theorem proto_server_has_no_status_witness:
  \<open>mcpServers_field (Some (JObj [(''mcpServers'', JObj [(''__proto__'', JObj [(''command'', JStr ''A'')])])]))
     = Some (JObj [(''__proto__'', JObj [(''command'', JStr ''A'')])])
   \<and> is_object (JObj [(''__proto__'', JObj [(''command'', JStr ''A'')])])
   \<and> distinct (map fst (object_entries (JObj [(''__proto__'', JObj [(''command'', JStr ''A'')])])))
   \<and> length (object_entries (JObj [(''__proto__'', JObj [(''command'', JStr ''A'')])])) = 1
   \<and> action demo_rt
        (Some (JObj [(''mcpServers'', JObj [(''__proto__'', JObj [(''command'', JStr ''A'')])])]))
        (init_state 0)
     = (Json200 \<lparr>serverStatus = Map.empty, serverErrors = Map.empty, serverTools = Map.empty\<rparr>,
        \<lparr>world = 2, created = 1,
          events = [Connected 0, ToolsCalled 0, ToolsCalled 0, CloseCalled 0]\<rparr>)\<close>
  using proto_server_has_no_status
          [of "Some (JObj [(''mcpServers'', JObj [(''__proto__'', JObj [(''command'', JStr ''A'')])])])"
              "JObj [(''__proto__'', JObj [(''command'', JStr ''A'')])]" demo_rt "init_state 0"]
  by (simp add: demo_defs mcpServers_field_def)

text \<open>
  C2. A server whose connection is established and whose tools retrieval then fails is
  to come out as reachable, with the probe error and no tools: \<open>serverStatus[name] =
  true\<close>, \<open>serverErrors[name]\<close> set, no \<open>serverTools\<close> entry. The callback of the
  check operation does exactly this for its own \<^verbatim>\<open>tools()\<close> call (when the client
  then closes without error). But \<^verbatim>\<open>createMCPClient\<close> has already made the same call
  on the fresh client, and when that one fails it throws: the callback's \<^verbatim>\<open>catch\<close>
  records \<open>serverStatus[name] = false\<close> with the error
  \<open>Server connection established but failed to get available tools: \<dots>\<close>. So for a
  server whose every \<^verbatim>\<open>tools()\<close> call fails the response says unreachable. (This is
  so for every server name but \<open>__proto__\<close>, under which nothing is recorded at
  all, see C6.)
\<close>

theorem probe_failure_outcome:
  assumes "mcpServers_field body = Some v" and "is_object v"
    and "object_entries v = pre @ (n, cfg) # post"
    and "n \<notin> fst ` set pre" and "n \<notin> fst ` set post"
    and "checkServers rt pre (empty_result, st) = (res1, st1)"
    and "valid_spec cfg" and "establish rt n cfg st1 = (Inr c, st2)"
  shows "\<exists>res st'. action rt body st = (Json200 res, st')
           \<and> (\<forall>e st3. call_tools rt c st2 = (Inl e, st3) \<longrightarrow>
                 serverStatus res n = (if n = ''__proto__'' then None else Some False)
                 \<and> serverErrors res n =
                     (if n = ''__proto__'' then None
                      else Some (''Server connection established but failed to get available tools: ''
                                 @ errorToString e))
                 \<and> serverTools res n = None)
           \<and> (\<forall>ts st3 e st4 st5.
                 call_tools rt c st2 = (Inr ts, st3) \<and> call_tools rt c st3 = (Inl e, st4)
                 \<and> call_close rt c st4 = (None, st5) \<longrightarrow>
                 serverStatus res n = (if n = ''__proto__'' then None else Some True)
                 \<and> serverErrors res n = (if n = ''__proto__'' then None
                     else Some (''Connected but failed to get tools: '' @ errorToString e))
                 \<and> serverTools res n = None)"
proof -
  obtain res st' where run: "action rt body st = (Json200 res, st')"
    and status: "serverStatus res n = serverStatus (fst (checkServer rt (n, cfg) (res1, st1))) n"
    and errors: "serverErrors res n = serverErrors (fst (checkServer rt (n, cfg) (res1, st1))) n"
    and tools: "serverTools res n = serverTools (fst (checkServer rt (n, cfg) (res1, st1))) n"
    using action_entry [OF assms(1,2,3,5,6)] by blast
  have none: "serverStatus res1 n = None" "serverErrors res1 n = None" "serverTools res1 n = None"
    using before_untouched [OF assms(4,6)] by simp_all
  have create: "createMCPClient rt n cfg st1 = verify_tools rt (Inr c, st2)"
    using assms(7,8) by (simp add: createMCPClient_valid)
  have first: "serverStatus res n = (if n = ''__proto__'' then None else Some False)
      \<and> serverErrors res n =
           (if n = ''__proto__'' then None
            else Some (''Server connection established but failed to get available tools: ''
                       @ errorToString e))
      \<and> serverTools res n = None"
    if "call_tools rt c st2 = (Inl e, st3)" for e st3
    using that none
    by (auto simp: status errors tools checkServer_def create verify_tools_def js_set_def)
  have second: "serverStatus res n = (if n = ''__proto__'' then None else Some True)
      \<and> serverErrors res n = (if n = ''__proto__'' then None
                     else Some (''Connected but failed to get tools: '' @ errorToString e))
      \<and> serverTools res n = None"
    if "call_tools rt c st2 = (Inr ts, st3)" "call_tools rt c st3 = (Inl e, st4)"
       "call_close rt c st4 = (None, st5)" for ts st3 e st4 st5
    using that none
    by (auto simp: status errors tools checkServer_def create verify_tools_def js_set_def)
  from run first second show ?thesis by blast
qed

theorem probe_failure_outcome_witness:
  \<open>mcpServers_field (one_server ''mute'') = Some (JObj [(''s'', JObj [(''command'', JStr ''mute'')])])
   \<and> valid_spec (JObj [(''command'', JStr ''mute'')])
   \<and> call_tools demo_rt (0, ''mute'') \<lparr>world = 0, created = 1, events = [Connected 0]\<rparr>
       = (Inl (ErrorObj ''no answer''), \<lparr>world = 1, created = 1, events = [Connected 0, ToolsCalled 0]\<rparr>)
   \<and> establish demo_rt ''s'' (JObj [(''command'', JStr ''mute'')]) (init_state 0)
       = (Inr (0, ''mute''), \<lparr>world = 0, created = 1, events = [Connected 0]\<rparr>)
   \<and> fst (action demo_rt (one_server ''mute'') (init_state 0))
       = Json200 \<lparr>serverStatus = [''s'' \<mapsto> False],
           serverErrors = [''s'' \<mapsto>
             ''Server connection established but failed to get available tools: no answer''],
           serverTools = Map.empty\<rparr>
   \<and> mcpServers_field (one_server ''flaky'') = Some (JObj [(''s'', JObj [(''command'', JStr ''flaky'')])])
   \<and> valid_spec (JObj [(''command'', JStr ''flaky'')])
   \<and> call_tools demo_rt (0, ''flaky'') \<lparr>world = 0, created = 1, events = [Connected 0]\<rparr>
       = (Inr (demo_tools ''flaky''), \<lparr>world = 1, created = 1, events = [Connected 0, ToolsCalled 0]\<rparr>)
   \<and> call_tools demo_rt (0, ''flaky'') \<lparr>world = 1, created = 1, events = [Connected 0, ToolsCalled 0]\<rparr>
       = (Inl (ErrorObj ''no answer''),
          \<lparr>world = 2, created = 1, events = [Connected 0, ToolsCalled 0, ToolsCalled 0]\<rparr>)
   \<and> call_close demo_rt (0, ''flaky'')
         \<lparr>world = 2, created = 1, events = [Connected 0, ToolsCalled 0, ToolsCalled 0]\<rparr>
       = (None, \<lparr>world = 2, created = 1,
                  events = [Connected 0, ToolsCalled 0, ToolsCalled 0, CloseCalled 0]\<rparr>)
   \<and> establish demo_rt ''s'' (JObj [(''command'', JStr ''flaky'')]) (init_state 0)
       = (Inr (0, ''flaky''), \<lparr>world = 0, created = 1, events = [Connected 0]\<rparr>)
   \<and> fst (action demo_rt (one_server ''flaky'') (init_state 0))
       = Json200 \<lparr>serverStatus = [''s'' \<mapsto> True],
           serverErrors = [''s'' \<mapsto> ''Connected but failed to get tools: no answer''],
           serverTools = Map.empty\<rparr>\<close>
  using probe_failure_outcome
          [where body = "one_server ''mute''"
             and v = "JObj [(''s'', JObj [(''command'', JStr ''mute'')])]"
             and pre = "[]" and n = "''s''" and cfg = "JObj [(''command'', JStr ''mute'')]"
             and post = "[]" and rt = demo_rt and st = "init_state 0"
             and ?res1.0 = empty_result and ?st1.0 = "init_state 0"
             and c = "(0, ''mute'')"
             and ?st2.0 = "\<lparr>world = 0, created = 1, events = [Connected 0]\<rparr>"]
        probe_failure_outcome
          [where body = "one_server ''flaky''"
             and v = "JObj [(''s'', JObj [(''command'', JStr ''flaky'')])]"
             and pre = "[]" and n = "''s''" and cfg = "JObj [(''command'', JStr ''flaky'')]"
             and post = "[]" and rt = demo_rt and st = "init_state 0"
             and ?res1.0 = empty_result and ?st1.0 = "init_state 0"
             and c = "(0, ''flaky'')"
             and ?st2.0 = "\<lparr>world = 0, created = 1, events = [Connected 0]\<rparr>"]
  by (simp add: one_server_def valid_spec_def establish_def mcpServers_field_def demo_defs)

lemma establish_events:
  "establish rt n cfg st = (Inr c, st2) \<Longrightarrow>
     fst c = created st \<and> events st2 = events st @ [Connected (created st)]"
  by (auto simp: establish_def createSSEClient_def createStdioClient_def connect_def Let_def
      split: if_splits prod.splits sum.splits)

lemma call_tools_events:
  "call_tools rt c st = (r, st') \<Longrightarrow> events st' = events st @ [ToolsCalled (fst c)]"
  by (auto simp: call_tools_def split: prod.splits)

lemma call_close_events:
  "call_close rt c st = (r, st') \<Longrightarrow> events st' = events st @ [CloseCalled (fst c)]"
  by (auto simp: call_close_def split: prod.splits)

lemma no_close_step_refl: "no_close_step st st"
  by (simp add: no_close_step_def)

lemma no_close_step_trans:
  "no_close_step st st' \<Longrightarrow> no_close_step st' st'' \<Longrightarrow> no_close_step st st''"
  unfolding no_close_step_def by fastforce

lemma connect_step:
  assumes "connect rt t st = (r, st')"
  shows "no_close_step st st'"
    and "r = Inr c \<Longrightarrow> fst c = created st \<and> created st' = Suc (created st)"
  using assms
  by (auto simp: connect_def no_close_step_def split: prod.splits sum.splits)

lemma call_tools_step:
  assumes "call_tools rt c st = (r, st')"
  shows "no_close_step st st'" and "created st' = created st"
  using assms by (auto simp: call_tools_def no_close_step_def split: prod.splits)

lemma establish_step:
  assumes "establish rt n cfg st = (r, st')"
  shows "no_close_step st st'"
    and "r = Inr c \<Longrightarrow> fst c = created st \<and> created st' = Suc (created st)"
proof -
  have "(\<exists>t r0. connect rt t st = (r0, st') \<and> (r = Inr c \<longrightarrow> r0 = Inr c)) \<or> st' = st \<and> (\<exists>e. r = Inl e)"
    using assms
    by (auto simp: establish_def createSSEClient_def createStdioClient_def Let_def
        split: if_splits prod.splits sum.splits)
  then show "no_close_step st st'"
    and "r = Inr c \<Longrightarrow> fst c = created st \<and> created st' = Suc (created st)"
    using connect_step no_close_step_refl by blast+
qed

lemma createMCPClient_invalid:
  "\<not> valid_spec cfg \<Longrightarrow> \<exists>e. createMCPClient rt n cfg st = (Inl e, st)"
  by (auto simp: valid_spec_def createMCPClient_def split: if_splits)

lemma createMCPClient_step:
  assumes "createMCPClient rt n cfg st = (r, st')"
  shows "no_close_step st st'"
    and "r = Inr (Some c) \<Longrightarrow> fst c = created st \<and> created st' = Suc (created st)"
proof -
  have "no_close_step st st'
      \<and> (r = Inr (Some c) \<longrightarrow> fst c = created st \<and> created st' = Suc (created st))"
  proof (cases "valid_spec cfg")
    case False
    then show ?thesis
      using createMCPClient_invalid [of cfg rt n st] assms by (auto simp: no_close_step_refl)
  next
    case True
    obtain r0 st0 where est: "establish rt n cfg st = (r0, st0)"
      by (cases "establish rt n cfg st")
    have run: "verify_tools rt (r0, st0) = (r, st')"
      using True est assms by (simp add: createMCPClient_valid)
    show ?thesis
    proof (cases r0)
      case (Inl e)
      then show ?thesis
        using run establish_step(1) [OF est] by (auto simp: verify_tools_def)
    next
      case (Inr c0)
      obtain r1 st1 where probe: "call_tools rt c0 st0 = (r1, st1)"
        by (cases "call_tools rt c0 st0")
      have "st' = st1" and "r = Inr (Some c) \<Longrightarrow> c = c0"
        using run Inr probe by (auto simp: verify_tools_def split: sum.splits)
      then show ?thesis
        using establish_step(1) [OF est] establish_step(2) [OF est, of c0] Inr call_tools_step [OF probe]
          no_close_step_trans [of st st0 st1]
        by auto
    qed
  qed
  then show "no_close_step st st'"
    and "r = Inr (Some c) \<Longrightarrow> fst c = created st \<and> created st' = Suc (created st)"
    by simp_all
qed

lemma callback_step_refl: "callback_step st st"
  by (simp add: callback_step_def)

lemma callback_step_trans:
  assumes "callback_step st st'" and "callback_step st' st''"
  shows "callback_step st st''"
proof -
  obtain evs where 1: "created st \<le> created st'" "events st' = events st @ evs"
    "\<forall>k. CloseCalled k \<in> set evs \<longrightarrow> created st \<le> k \<and> k < created st'"
    using assms(1) unfolding callback_step_def by blast
  obtain evs' where 2: "created st' \<le> created st''" "events st'' = events st' @ evs'"
    "\<forall>k. CloseCalled k \<in> set evs' \<longrightarrow> created st' \<le> k \<and> k < created st''"
    using assms(2) unfolding callback_step_def by blast
  have "events st'' = events st @ (evs @ evs')"
    using 1(2) 2(2) by simp
  moreover have "\<forall>k. CloseCalled k \<in> set (evs @ evs') \<longrightarrow> created st \<le> k \<and> k < created st''"
    using 1 2 by fastforce
  ultimately show ?thesis
    unfolding callback_step_def using 1(1) 2(1) by (metis le_trans)
qed

lemma no_close_callback_step: "no_close_step st st' \<Longrightarrow> callback_step st st'"
  unfolding no_close_step_def callback_step_def by blast

lemma checkServer_step: "callback_step st (snd (checkServer rt e (res, st)))"
proof -
  obtain n cfg where e: "e = (n, cfg)" by (cases e)
  obtain r st1 where create: "createMCPClient rt n cfg st = (r, st1)"
    by (cases "createMCPClient rt n cfg st")
  have step1: "no_close_step st st1"
    using createMCPClient_step(1) [OF create] .
  show ?thesis
  proof (cases r)
    case (Inl err)
    then have "snd (checkServer rt e (res, st)) = st1"
      by (simp add: e checkServer_def create)
    then show ?thesis using step1 by (simp add: no_close_callback_step)
  next
    case (Inr oc)
    show ?thesis
    proof (cases oc)
      case None
      then have "snd (checkServer rt e (res, st)) = st1"
        by (simp add: e checkServer_def create Inr)
      then show ?thesis using step1 by (simp add: no_close_callback_step)
    next
      case (Some c)
      have c: "fst c = created st" "created st1 = Suc (created st)"
        using createMCPClient_step(2) [OF create, of c] Inr Some by simp_all
      obtain r2 st2 where probe: "call_tools rt c st1 = (r2, st2)"
        by (cases "call_tools rt c st1")
      obtain r3 st3 where close: "call_close rt c st2 = (r3, st3)"
        by (cases "call_close rt c st2")
      have final: "snd (checkServer rt e (res, st)) = st3"
        by (simp add: e checkServer_def create Inr Some probe close Let_def split: option.splits)
      have "no_close_step st st2"
        using step1 call_tools_step(1) [OF probe] by (rule no_close_step_trans)
      then obtain evs where evs: "events st2 = events st @ evs" "\<forall>k. CloseCalled k \<notin> set evs"
        unfolding no_close_step_def by blast
      have "created st2 = Suc (created st)"
        using call_tools_step(2) [OF probe] c(2) by simp
      moreover have "events st3 = events st @ (evs @ [CloseCalled (fst c)])"
        and "created st3 = created st2"
        using close evs(1) by (auto simp: call_close_def split: prod.splits)
      ultimately have "callback_step st st3"
        unfolding callback_step_def using evs(2) c(1) by auto
      then show ?thesis by (simp add: final)
    qed
  qed
qed

lemma checkServers_step: "callback_step (snd acc) (snd (checkServers rt es acc))"
proof (induction es arbitrary: acc)
  case Nil
  show ?case by (simp add: callback_step_refl)
next
  case (Cons e es)
  obtain res st where acc: "acc = (res, st)" by (cases acc)
  have "callback_step (snd acc) (snd (checkServer rt e acc))"
    by (simp add: acc checkServer_step)
  then show ?case
    using Cons.IH [of "checkServer rt e acc"] by (auto intro: callback_step_trans)
qed

lemma callback_step_closes_known:
  "callback_step st st' \<Longrightarrow> closes_known st \<Longrightarrow> closes_known st'"
  unfolding callback_step_def closes_known_def by fastforce

lemma callback_step_keeps_open:
  "callback_step st st' \<Longrightarrow> CloseCalled k \<notin> set (events st) \<Longrightarrow> k < created st
     \<Longrightarrow> CloseCalled k \<notin> set (events st')"
  unfolding callback_step_def by fastforce

lemma callback_step_events_grow:
  "callback_step st st' \<Longrightarrow> set (events st) \<subseteq> set (events st')"
  unfolding callback_step_def by auto

lemma checkServer_probe_failure:
  assumes "valid_spec cfg" and "establish rt n cfg st = (Inr c, st2)"
    and "call_tools rt c st2 = (Inl e, st3)"
  shows "snd (checkServer rt (n, cfg) (res, st)) = st3
       \<and> events st3 = events st @ [Connected (fst c), ToolsCalled (fst c)]"
proof -
  have "createMCPClient rt n cfg st = verify_tools rt (Inr c, st2)"
    using assms(1,2) by (simp add: createMCPClient_valid)
  then have "snd (checkServer rt (n, cfg) (res, st)) = st3"
    using assms(3) by (simp add: checkServer_def verify_tools_def)
  moreover have "events st3 = events st @ [Connected (fst c), ToolsCalled (fst c)]"
    using establish_events [OF assms(2)] call_tools_events [OF assms(3)] by simp
  ultimately show ?thesis by simp
qed

text \<open>
  C3. Every client created during a run of the check operation is to be closed exactly
  once before the operation returns, also when the probe after connecting fails. The
  code does not do so on that path. When the connection of a server is established and
  the \<^verbatim>\<open>tools()\<close> call inside \<^verbatim>\<open>createMCPClient\<close> fails, creation throws without
  closing the client, the callback ends in its \<^verbatim>\<open>catch\<close>, and no other callback
  knows the client: when the operation returns, the client has been created and
  \<^verbatim>\<open>close()\<close> has never been called on it.
\<close>

theorem probe_failure_leaves_client_open:
  assumes "mcpServers_field body = Some v" and "is_object v"
    and "object_entries v = pre @ (n, cfg) # post"
    and "closes_known st"
    and "checkServers rt pre (empty_result, st) = (res1, st1)"
    and "valid_spec cfg" and "establish rt n cfg st1 = (Inr c, st2)"
    and "call_tools rt c st2 = (Inl e, st3)"
  shows "\<exists>res st'. action rt body st = (Json200 res, st')
           \<and> Connected (fst c) \<in> set (events st')
           \<and> CloseCalled (fst c) \<notin> set (events st')"
proof -
  let ?r = "checkServers rt (object_entries v) (empty_result, st)"
  have run: "action rt body st = (Json200 (fst ?r), snd ?r)"
    using assms(1,2) by (rule action_accepts)
  have "callback_step st st1"
    using checkServers_step [of "(empty_result, st)" rt pre] assms(5) by simp
  then have "closes_known st1"
    using assms(4) by (rule callback_step_closes_known)
  moreover have c: "fst c = created st1" "created st2 = Suc (created st1)"
    using establish_step(2) [OF assms(7), of c] by simp_all
  ultimately have before: "CloseCalled (fst c) \<notin> set (events st1)"
    unfolding closes_known_def by auto
  have cb: "snd (checkServer rt (n, cfg) (res1, st1)) = st3"
    and trace: "events st3 = events st1 @ [Connected (fst c), ToolsCalled (fst c)]"
    using checkServer_probe_failure [OF assms(6,7,8), of res1] by simp_all
  have "created st3 = created st2"
    using call_tools_step(2) [OF assms(8)] .
  then have known: "fst c < created st3"
    using c by simp
  have open3: "CloseCalled (fst c) \<notin> set (events st3)"
    using before trace by simp
  have split: "?r = checkServers rt post (checkServer rt (n, cfg) (res1, st1))"
    by (simp add: assms(3,5) checkServers_append)
  have rest: "callback_step st3 (snd ?r)"
    using checkServers_step [of "checkServer rt (n, cfg) (res1, st1)" rt post]
    by (simp add: split cb)
  have "CloseCalled (fst c) \<notin> set (events (snd ?r))"
    using rest open3 known by (rule callback_step_keeps_open)
  moreover have "Connected (fst c) \<in> set (events (snd ?r))"
    using callback_step_events_grow [OF rest] trace by auto
  ultimately show ?thesis
    using run by simp
qed

theorem probe_failure_leaves_client_open_witness:
  "mcpServers_field (one_server ''mute'') = Some (JObj [(''s'', JObj [(''command'', JStr ''mute'')])])
   \<and> closes_known (init_state (0::nat))
   \<and> valid_spec (JObj [(''command'', JStr ''mute'')])
   \<and> establish demo_rt ''s'' (JObj [(''command'', JStr ''mute'')]) (init_state 0)
       = (Inr (0, ''mute''), \<lparr>world = 0, created = 1, events = [Connected 0]\<rparr>)
   \<and> call_tools demo_rt (0, ''mute'') \<lparr>world = 0, created = 1, events = [Connected 0]\<rparr>
       = (Inl (ErrorObj ''no answer''), \<lparr>world = 1, created = 1, events = [Connected 0, ToolsCalled 0]\<rparr>)
   \<and> events (snd (action demo_rt (one_server ''mute'') (init_state 0))) = [Connected 0, ToolsCalled 0]
   \<and> CloseCalled 0 \<notin> set (events (snd (action demo_rt (one_server ''mute'') (init_state 0))))"
  using probe_failure_leaves_client_open
          [where body = "one_server ''mute''"
             and v = "JObj [(''s'', JObj [(''command'', JStr ''mute'')])]"
             and pre = "[]" and n = "''s''" and cfg = "JObj [(''command'', JStr ''mute'')]"
             and post = "[]" and rt = demo_rt and st = "init_state 0"
             and ?res1.0 = empty_result and ?st1.0 = "init_state 0"
             and c = "(0, ''mute'')"
             and ?st2.0 = "\<lparr>world = 0, created = 1, events = [Connected 0]\<rparr>"
             and e = "ErrorObj ''no answer''"
             and ?st3.0 = "\<lparr>world = 1, created = 1, events = [Connected 0, ToolsCalled 0]\<rparr>"]
  by (simp add: valid_spec_def establish_def mcpServers_field_def closes_known_def demo_defs)

lemma checkServer_closing:
  assumes "valid_spec cfg" and "establish rt n cfg st = (Inr c, st2)"
    and "call_tools rt c st2 = (Inr ts0, st3)" and "call_tools rt c st3 = (Inr ts, st4)"
    and "call_close rt c st4 = (r, st5)"
  shows "checkServer rt (n, cfg) (res, st) =
           (case r of
              None \<Rightarrow>
                (res\<lparr>serverStatus := js_set (serverStatus res) n True,
                     serverTools := js_set (serverTools res) n ts\<rparr>, st5)
            | Some e \<Rightarrow>
                (res\<lparr>serverStatus := js_set (serverStatus res) n False,
                     serverErrors := js_set (serverErrors res) n (errorToString e),
                     serverTools := js_set (serverTools res) n ts\<rparr>, st5))"
proof -
  have "createMCPClient rt n cfg st = (Inr (Some c), st3)"
    using assms(1,2,3) by (simp add: createMCPClient_valid verify_tools_def)
  then show ?thesis
    using assms(4,5) by (simp add: checkServer_def js_set_def split: option.splits)
qed

lemma response_after_close:
  assumes "mcpServers_field body = Some v" and "is_object v"
    and "object_entries v = pre @ (n, cfg) # post"
    and "n \<notin> fst ` set pre" and "n \<notin> fst ` set post"
    and "checkServers rt pre (empty_result, st) = (res1, st1)"
    and "valid_spec cfg" and "establish rt n cfg st1 = (Inr c, st2)"
    and "call_tools rt c st2 = (Inr ts0, st3)" and "call_tools rt c st3 = (Inr ts, st4)"
    and "call_close rt c st4 = (r, st5)"
  shows "\<exists>res st'. action rt body st = (Json200 res, st')
           \<and> serverStatus res n = (if n = ''__proto__'' then None else Some (r = None))
           \<and> serverErrors res n = (if n = ''__proto__'' then None else map_option errorToString r)
           \<and> serverTools res n = (if n = ''__proto__'' then None else Some ts)"
proof -
  obtain res st' where run: "action rt body st = (Json200 res, st')"
    and status: "serverStatus res n = serverStatus (fst (checkServer rt (n, cfg) (res1, st1))) n"
    and errors: "serverErrors res n = serverErrors (fst (checkServer rt (n, cfg) (res1, st1))) n"
    and tools: "serverTools res n = serverTools (fst (checkServer rt (n, cfg) (res1, st1))) n"
    using action_entry [OF assms(1,2,3,5,6)] by blast
  have none: "serverStatus res1 n = None" "serverErrors res1 n = None" "serverTools res1 n = None"
    using before_untouched [OF assms(4,6)] by simp_all
  show ?thesis
    using run none checkServer_closing [OF assms(7-11), of res1]
    by (auto simp: status errors tools js_set_def split: option.splits)
qed

text \<open>
  C5. A server with \<open>serverStatus[name] = false\<close> is to have no \<open>serverTools\<close> entry
  and a non-empty error. The code breaks this when \<^verbatim>\<open>close()\<close> rejects: the status is
  already \<open>true\<close> and the tools are recorded, the rejection lands in the callback's
  \<^verbatim>\<open>catch\<close>, and the response has the status \<open>false\<close> together with the tools. The
  error is the message of the rejection, which can be empty. (This is so for every server name but
  \<open>__proto__\<close>, under which nothing is recorded at all, see C6.)
\<close>

theorem close_failure_unreachable_with_tools:
  assumes "mcpServers_field body = Some v" and "is_object v"
    and "object_entries v = pre @ (n, cfg) # post"
    and "n \<notin> fst ` set pre" and "n \<notin> fst ` set post"
    and "checkServers rt pre (empty_result, st) = (res1, st1)"
    and "valid_spec cfg" and "establish rt n cfg st1 = (Inr c, st2)"
    and "call_tools rt c st2 = (Inr ts0, st3)" and "call_tools rt c st3 = (Inr ts, st4)"
    and "call_close rt c st4 = (Some e, st5)"
  shows "\<exists>res st'. action rt body st = (Json200 res, st')
           \<and> serverStatus res n = (if n = ''__proto__'' then None else Some False)
           \<and> serverTools res n = (if n = ''__proto__'' then None else Some ts)
           \<and> serverErrors res n = (if n = ''__proto__'' then None else Some (errorToString e))"
  using response_after_close [OF assms] by auto

theorem close_failure_unreachable_with_tools_witness:
  "mcpServers_field (one_server ''silent'') = Some (JObj [(''s'', JObj [(''command'', JStr ''silent'')])])
   \<and> valid_spec (JObj [(''command'', JStr ''silent'')])
   \<and> establish demo_rt ''s'' (JObj [(''command'', JStr ''silent'')]) (init_state 0)
       = (Inr (0, ''silent''), \<lparr>world = 0, created = 1, events = [Connected 0]\<rparr>)
   \<and> call_tools demo_rt (0, ''silent'') \<lparr>world = 0, created = 1, events = [Connected 0]\<rparr>
       = (Inr (demo_tools ''silent''),
          \<lparr>world = 1, created = 1, events = [Connected 0, ToolsCalled 0]\<rparr>)
   \<and> call_tools demo_rt (0, ''silent'') \<lparr>world = 1, created = 1, events = [Connected 0, ToolsCalled 0]\<rparr>
       = (Inr (demo_tools ''silent''),
          \<lparr>world = 2, created = 1, events = [Connected 0, ToolsCalled 0, ToolsCalled 0]\<rparr>)
   \<and> call_close demo_rt (0, ''silent'')
         \<lparr>world = 2, created = 1, events = [Connected 0, ToolsCalled 0, ToolsCalled 0]\<rparr>
       = (Some (ErrorObj []),
          \<lparr>world = 2, created = 1,
            events = [Connected 0, ToolsCalled 0, ToolsCalled 0, CloseCalled 0]\<rparr>)
   \<and> fst (action demo_rt (one_server ''silent'') (init_state 0))
       = Json200 \<lparr>serverStatus = [''s'' \<mapsto> False],
                  serverErrors = [''s'' \<mapsto> []],
                  serverTools = [''s'' \<mapsto> [''log'' \<mapsto> 0]]\<rparr>"
  using close_failure_unreachable_with_tools
          [where body = "one_server ''silent''"
             and v = "JObj [(''s'', JObj [(''command'', JStr ''silent'')])]"
             and pre = "[]" and post = "[]"
             and ?res1.0 = empty_result and ?st1.0 = "init_state 0"
             and cfg = "JObj [(''command'', JStr ''silent'')]" and rt = demo_rt and n = "''s''"
             and st = "init_state 0" and c = "(0, ''silent'')"
             and ?st2.0 = "\<lparr>world = 0, created = 1, events = [Connected 0]\<rparr>"
             and ?ts0.0 = "demo_tools ''silent''"
             and ?st3.0 = "\<lparr>world = 1, created = 1, events = [Connected 0, ToolsCalled 0]\<rparr>"
             and ts = "demo_tools ''silent''"
             and ?st4.0 = "\<lparr>world = 2, created = 1,
                              events = [Connected 0, ToolsCalled 0, ToolsCalled 0]\<rparr>"
             and e = "ErrorObj []"
             and ?st5.0 = "\<lparr>world = 2, created = 1,
                              events = [Connected 0, ToolsCalled 0, ToolsCalled 0, CloseCalled 0]\<rparr>"]
  by (simp add: valid_spec_def establish_def mcpServers_field_def demo_defs)

text \<open>
  \<^verbatim>\<open>closeMCPClients\<close> calls \<^verbatim>\<open>close()\<close> once on every client of the list, in order,
  whatever the earlier closes answered, and has no failing result.
\<close>

lemma closeMCPClients_events:
  "events (closeMCPClients rt clients st) = events st @ map (\<lambda>c. CloseCalled (fst c)) clients"
  by (induction clients arbitrary: st) (simp_all add: call_close_def split: prod.splits)

text \<open>
  C7. A failure of \<^verbatim>\<open>close()\<close> after the tools were captured is not to change the
  recorded outcome of the server. In the check operation it does. For a server that
  connects and answers both \<^verbatim>\<open>tools()\<close> calls, the status in the response is
  \<open>true\<close> exactly when \<^verbatim>\<open>close()\<close> succeeds; when it rejects, the status is
  \<open>false\<close> and the error is the close error, with the tools still recorded. (This is so for every server
  name but \<open>__proto__\<close>, under which nothing is recorded at all, see C6.)
\<close>

theorem close_failure_changes_outcome:
  assumes "mcpServers_field body = Some v" and "is_object v"
    and "object_entries v = pre @ (n, cfg) # post"
    and "n \<notin> fst ` set pre" and "n \<notin> fst ` set post"
    and "checkServers rt pre (empty_result, st) = (res1, st1)"
    and "valid_spec cfg" and "establish rt n cfg st1 = (Inr c, st2)"
    and "call_tools rt c st2 = (Inr ts0, st3)" and "call_tools rt c st3 = (Inr ts, st4)"
    and "call_close rt c st4 = (r, st5)"
  shows "\<exists>res st'. action rt body st = (Json200 res, st')
           \<and> serverStatus res n = (if n = ''__proto__'' then None else Some (r = None))
           \<and> serverErrors res n = (if n = ''__proto__'' then None else map_option errorToString r)
           \<and> serverTools res n = (if n = ''__proto__'' then None else Some ts)"
  using assms by (rule response_after_close)

theorem close_failure_changes_outcome_witness:
  "mcpServers_field (one_server ''stuck'') = Some (JObj [(''s'', JObj [(''command'', JStr ''stuck'')])])
   \<and> valid_spec (JObj [(''command'', JStr ''stuck'')])
   \<and> establish demo_rt ''s'' (JObj [(''command'', JStr ''stuck'')]) (init_state 0)
       = (Inr (0, ''stuck''), \<lparr>world = 0, created = 1, events = [Connected 0]\<rparr>)
   \<and> call_tools demo_rt (0, ''stuck'') \<lparr>world = 0, created = 1, events = [Connected 0]\<rparr>
       = (Inr (demo_tools ''stuck''),
          \<lparr>world = 1, created = 1, events = [Connected 0, ToolsCalled 0]\<rparr>)
   \<and> call_tools demo_rt (0, ''stuck'') \<lparr>world = 1, created = 1, events = [Connected 0, ToolsCalled 0]\<rparr>
       = (Inr (demo_tools ''stuck''),
          \<lparr>world = 2, created = 1, events = [Connected 0, ToolsCalled 0, ToolsCalled 0]\<rparr>)
   \<and> call_close demo_rt (0, ''stuck'')
         \<lparr>world = 2, created = 1, events = [Connected 0, ToolsCalled 0, ToolsCalled 0]\<rparr>
       = (Some (ErrorObj ''close failed''),
          \<lparr>world = 2, created = 1,
            events = [Connected 0, ToolsCalled 0, ToolsCalled 0, CloseCalled 0]\<rparr>)
   \<and> fst (action demo_rt (one_server ''stuck'') (init_state 0))
       = Json200 \<lparr>serverStatus = [''s'' \<mapsto> False],
                  serverErrors = [''s'' \<mapsto> ''close failed''],
                  serverTools = [''s'' \<mapsto> [''log'' \<mapsto> 0]]\<rparr>
   \<and> fst (action demo_rt (one_server ''mcp-server-git'') (init_state 0))
       = Json200 \<lparr>serverStatus = [''s'' \<mapsto> True],
                  serverErrors = Map.empty,
                  serverTools = [''s'' \<mapsto> [''log'' \<mapsto> 0]]\<rparr>"
  using close_failure_changes_outcome
          [where body = "one_server ''stuck''"
             and v = "JObj [(''s'', JObj [(''command'', JStr ''stuck'')])]"
             and pre = "[]" and post = "[]"
             and ?res1.0 = empty_result and ?st1.0 = "init_state 0"
             and cfg = "JObj [(''command'', JStr ''stuck'')]" and rt = demo_rt and n = "''s''"
             and st = "init_state 0" and c = "(0, ''stuck'')"
             and ?st2.0 = "\<lparr>world = 0, created = 1, events = [Connected 0]\<rparr>"
             and ?ts0.0 = "demo_tools ''stuck''"
             and ?st3.0 = "\<lparr>world = 1, created = 1, events = [Connected 0, ToolsCalled 0]\<rparr>"
             and ts = "demo_tools ''stuck''"
             and ?st4.0 = "\<lparr>world = 2, created = 1,
                              events = [Connected 0, ToolsCalled 0, ToolsCalled 0]\<rparr>"
             and r = "Some (ErrorObj ''close failed'')"
             and ?st5.0 = "\<lparr>world = 2, created = 1,
                              events = [Connected 0, ToolsCalled 0, ToolsCalled 0, CloseCalled 0]\<rparr>"]
  by (simp add: valid_spec_def establish_def mcpServers_field_def demo_defs)

section \<open>Aggregation of tools\<close>








end
